theory Spec2Isabelle
  imports Complex_Main
begin

section \<open>The rate-limited invoker of \<^verbatim>\<open>rate-limiter.ts\<close>\<close>

subsection \<open>Values thrown by the operation\<close>

text \<open>
  The caught value has the TypeScript type \<^verbatim>\<open>any\<close>. The code reads three properties of
  it, each through optional chaining: \<^verbatim>\<open>error?.statusCode\<close>, \<^verbatim>\<open>error?.error\<close> and
  \<^verbatim>\<open>error?.retryAfter\<close>. The first two are only compared with \<^verbatim>\<open>===\<close>, which never
  coerces, so they are modelled as primitive JavaScript values compared by equality.
  Status codes, seconds and milliseconds are integers here; \<^verbatim>\<open>NaN\<close> and the infinities
  are outside the model.
\<close>

datatype jsval = JUndefined | JNull | JBool bool | JNum int | JStr string

text \<open>
  An object that is thrown. A property the object does not have reads as \<^verbatim>\<open>undefined\<close>:
  \<open>JUndefined\<close> for \<open>statusCode\<close> and \<open>error\<close>. The property \<open>retryAfter\<close> enters
  arithmetic, so it is either absent (\<open>None\<close>: \<^verbatim>\<open>undefined\<close> or \<^verbatim>\<open>null\<close>) or a number of
  seconds. Every other property of the object lives in the extension part of the record.
\<close>

record failure =
  statusCode :: jsval
  error :: jsval
  retryAfter :: "int option"

text \<open>
  Anything can be thrown: a primitive (also \<^verbatim>\<open>undefined\<close> and \<^verbatim>\<open>null\<close>) or an object.
\<close>

datatype 'x thrown = Primitive jsval | Object "'x failure_scheme"

text \<open>
  \<^verbatim>\<open>error?.p\<close>: \<^verbatim>\<open>undefined\<close> when \<^verbatim>\<open>error\<close> is \<^verbatim>\<open>undefined\<close> or \<^verbatim>\<open>null\<close>; the property
  lookup otherwise, which finds nothing on a primitive.
\<close>

fun get_statusCode :: "'x thrown \<Rightarrow> jsval" where
  "get_statusCode (Primitive _) = JUndefined"
| "get_statusCode (Object f) = statusCode f"

fun get_error :: "'x thrown \<Rightarrow> jsval" where
  "get_error (Primitive _) = JUndefined"
| "get_error (Object f) = error f"

fun get_retryAfter :: "'x thrown \<Rightarrow> int option" where
  "get_retryAfter (Primitive _) = None"
| "get_retryAfter (Object f) = retryAfter f"

subsection \<open>Classification and backoff\<close>

text \<open>
  Line 24: \<^verbatim>\<open>error?.statusCode === 429 || error?.error === 'Too Many Requests'\<close>.
\<close>

definition isRateLimitError :: "'x thrown \<Rightarrow> bool" where
  "isRateLimitError err \<longleftrightarrow>
     get_statusCode err = JNum 429 \<or> get_error err = JStr ''Too Many Requests''"

text \<open>
  Line 25: \<^verbatim>\<open>const retryAfter = error?.retryAfter || 1\<close>. The operator \<^verbatim>\<open>||\<close> takes its right
  operand whenever the left one is falsy: absent, and also the number zero.
\<close>

definition retryAfterOr1 :: "'x thrown \<Rightarrow> int" where
  "retryAfterOr1 err =
     (case get_retryAfter err of
        None \<Rightarrow> 1
      | Some r \<Rightarrow> if r = 0 then 1 else r)"

text \<open>
  Line 26: \<^verbatim>\<open>Math.max(retryAfter * 1000, initialDelay * Math.pow(2, attempt))\<close>.
\<close>

definition delayMs :: "'x thrown \<Rightarrow> int \<Rightarrow> nat \<Rightarrow> int" where
  "delayMs err initialDelay attempt =
     max (retryAfterOr1 err * 1000) (initialDelay * 2 ^ attempt)"

subsection \<open>The retry loop\<close>

text \<open>
  The operation \<^verbatim>\<open>fn\<close> takes no argument and has effects of its own, so it is a step on
  a state of the outside world: it returns a value (\<open>Inr\<close>) or throws (\<open>Inl\<close>), and
  leaves the world changed. A rejected promise and a synchronous throw are both caught by
  \<^verbatim>\<open>try { return await fn() }\<close>, so they are the same \<open>Inl\<close>.
\<close>

type_synonym ('a, 'x, 'w) operation = "'w \<Rightarrow> ('x thrown + 'a) \<times> 'w"

text \<open>
  What the invoker does, in order: a call of the operation, the progress line printed
  before a wait (with the delay, \<^verbatim>\<open>attempt + 1\<close> and \<^verbatim>\<open>maxRetries\<close>), and the wait itself
  (the delay handed to \<^verbatim>\<open>setTimeout\<close>).
\<close>

datatype event = Call | Log int nat real | Sleep int

text \<open>
  The three ways the function ends: \<^verbatim>\<open>return await fn()\<close> (line 19), \<^verbatim>\<open>throw error\<close>
  inside the loop (line 36) and \<^verbatim>\<open>throw lastError\<close> after it (line 40).
\<close>

datatype ('a, 'x) outcome =
    Returned 'a
  | ThrownInLoop "'x thrown"
  | ThrownAfterLoop "'x thrown"

record ('a, 'x, 'w) run =
  outcome :: "('a, 'x) outcome"
  trace :: "event list"
  world :: 'w

text \<open>
  The \<^verbatim>\<open>for\<close> loop of lines 17 to 38, with its variables \<open>attempt\<close> and \<open>lastError\<close>.
  The parameters are of type \<^verbatim>\<open>number\<close>; here they are integers, as the specification
  declares them (a number of retries, a number of milliseconds), and \<open>maxRetries\<close> may be
  negative; \<open>loop_number\<close> below is the loop for any \<open>maxRetries\<close>.
  \<open>attempt\<close> starts at 0 and only grows. Each iteration calls the operation
  once and either ends the function or, after a rate-limit failure with
  \<open>attempt < maxRetries\<close>, prints the progress line, waits and goes on with
  \<open>attempt + 1\<close>.
\<close>

function loop ::
  "('a, 'x, 'w) operation \<Rightarrow> int \<Rightarrow> int \<Rightarrow> nat \<Rightarrow> 'x thrown \<Rightarrow> 'w \<Rightarrow> event list
     \<Rightarrow> ('a, 'x, 'w) run" where
  "loop fn maxRetries initialDelay attempt lastError w tr =
     (if int attempt \<le> maxRetries then
        (case fn w of
           (Inr v, w') \<Rightarrow> \<lparr>outcome = Returned v, trace = tr @ [Call], world = w'\<rparr>
         | (Inl err, w') \<Rightarrow>
             (if isRateLimitError err then
                (if int attempt < maxRetries then
                   loop fn maxRetries initialDelay (attempt + 1) err w'
                     (tr @ [Call,
                            Log (delayMs err initialDelay attempt) (attempt + 1)
                              (of_int maxRetries),
                            Sleep (delayMs err initialDelay attempt)])
                 else \<lparr>outcome = ThrownInLoop err, trace = tr @ [Call], world = w'\<rparr>)
              else \<lparr>outcome = ThrownInLoop err, trace = tr @ [Call], world = w'\<rparr>))
      else \<lparr>outcome = ThrownAfterLoop lastError, trace = tr, world = w\<rparr>)"
  by pat_completeness auto
termination
  by (relation "measure (\<lambda>(fn, maxRetries, initialDelay, attempt, lastError, w, tr).
        nat (maxRetries + 1 - int attempt))") auto

declare loop.simps [simp del]

text \<open>
  The default parameters of lines 12 and 13: an argument left out is \<open>None\<close>.
\<close>

definition maxRetries_or_default :: "int option \<Rightarrow> int" where
  "maxRetries_or_default m = (case m of None \<Rightarrow> 5 | Some k \<Rightarrow> k)"

definition initialDelay_or_default :: "int option \<Rightarrow> int" where
  "initialDelay_or_default d = (case d of None \<Rightarrow> 1000 | Some k \<Rightarrow> k)"

text \<open>
  \<^verbatim>\<open>withRateLimit\<close>: \<open>lastError\<close> is declared without a value (line 15), so it starts
  as \<^verbatim>\<open>undefined\<close>.
\<close>

definition withRateLimit ::
  "('a, 'x, 'w) operation \<Rightarrow> int option \<Rightarrow> int option \<Rightarrow> 'w \<Rightarrow> ('a, 'x, 'w) run" where
  "withRateLimit fn maxRetries initialDelay w =
     loop fn (maxRetries_or_default maxRetries) (initialDelay_or_default initialDelay)
       0 (Primitive JUndefined) w []"

subsection \<open>A \<open>maxRetries\<close> that is not an integer\<close>

text \<open>
  The source compares \<^verbatim>\<open>attempt <= maxRetries\<close> and \<^verbatim>\<open>attempt < maxRetries\<close> on numbers and
  never rounds \<open>maxRetries\<close>, whose type \<^verbatim>\<open>number\<close> also holds fractions. This is the
  same loop with \<open>maxRetries\<close> a real number; the progress line prints it as it is. For
  a \<open>maxRetries\<close> strictly between two integers the loop can wait after an attempt and
  then find its condition false, which the loop over the integers never does.
\<close>

function loop_number ::
  "('a, 'x, 'w) operation \<Rightarrow> real \<Rightarrow> int \<Rightarrow> nat \<Rightarrow> 'x thrown \<Rightarrow> 'w \<Rightarrow> event list
     \<Rightarrow> ('a, 'x, 'w) run" where
  "loop_number fn maxRetries initialDelay attempt lastError w tr =
     (if real attempt \<le> maxRetries then
        (case fn w of
           (Inr v, w') \<Rightarrow> \<lparr>outcome = Returned v, trace = tr @ [Call], world = w'\<rparr>
         | (Inl err, w') \<Rightarrow>
             (if isRateLimitError err then
                (if real attempt < maxRetries then
                   loop_number fn maxRetries initialDelay (attempt + 1) err w'
                     (tr @ [Call,
                            Log (delayMs err initialDelay attempt) (attempt + 1) maxRetries,
                            Sleep (delayMs err initialDelay attempt)])
                 else \<lparr>outcome = ThrownInLoop err, trace = tr @ [Call], world = w'\<rparr>)
              else \<lparr>outcome = ThrownInLoop err, trace = tr @ [Call], world = w'\<rparr>))
      else \<lparr>outcome = ThrownAfterLoop lastError, trace = tr, world = w\<rparr>)"
  by pat_completeness auto
termination
proof (relation "measure (\<lambda>(fn, maxRetries, initialDelay, attempt, lastError, w, tr).
        nat (\<lfloor>maxRetries\<rfloor> + 1 - int attempt))", goal_cases)
  case 1
  show ?case by simp
next
  case (2 fn maxRetries initialDelay attempt lastError w tr x y a)
  from \<open>real attempt \<le> maxRetries\<close> have "int attempt \<le> \<lfloor>maxRetries\<rfloor>"
    by (simp add: le_floor_iff)
  then show ?case by simp
qed

declare loop_number.simps [simp del]

text \<open>The default of line 12 and the function itself, for such a \<open>maxRetries\<close>.\<close>

definition maxRetries_number :: "real option \<Rightarrow> real" where
  "maxRetries_number m = (case m of None \<Rightarrow> 5 | Some k \<Rightarrow> k)"

definition withRateLimit_number ::
  "('a, 'x, 'w) operation \<Rightarrow> real option \<Rightarrow> int option \<Rightarrow> 'w \<Rightarrow> ('a, 'x, 'w) run" where
  "withRateLimit_number fn maxRetries initialDelay w =
     loop_number fn (maxRetries_number maxRetries) (initialDelay_or_default initialDelay)
       0 (Primitive JUndefined) w []"

subsection \<open>Observations on a run\<close>

text \<open>What the caller of \<^verbatim>\<open>withRateLimit\<close> sees: a value, or something thrown.\<close>

fun settled :: "('a, 'x) outcome \<Rightarrow> 'x thrown + 'a" where
  "settled (Returned v) = Inr v"
| "settled (ThrownInLoop e) = Inl e"
| "settled (ThrownAfterLoop e) = Inl e"

text \<open>The number of calls of the operation, and the waits in order.\<close>

fun call_count :: "event list \<Rightarrow> nat" where
  "call_count [] = 0"
| "call_count (Call # es) = Suc (call_count es)"
| "call_count (_ # es) = call_count es"

fun sleeps :: "event list \<Rightarrow> int list" where
  "sleeps [] = []"
| "sleeps (Sleep d # es) = d # sleeps es"
| "sleeps (_ # es) = sleeps es"

definition calls :: "('a, 'x, 'w) run \<Rightarrow> nat" where
  "calls r = call_count (trace r)"

definition delays :: "('a, 'x, 'w) run \<Rightarrow> int list" where
  "delays r = sleeps (trace r)"

text \<open>
  The world after the first \<open>n\<close> calls of the operation, and what the call with index
  \<open>i\<close> (the first one has index 0) does when the operation is called again and again.
\<close>

primrec world_after :: "('a, 'x, 'w) operation \<Rightarrow> 'w \<Rightarrow> nat \<Rightarrow> 'w" where
  "world_after fn w 0 = w"
| "world_after fn w (Suc n) = world_after fn (snd (fn w)) n"

definition nth_outcome :: "('a, 'x, 'w) operation \<Rightarrow> 'w \<Rightarrow> nat \<Rightarrow> 'x thrown + 'a" where
  "nth_outcome fn w i = fst (fn (world_after fn w i))"

text \<open>
  The events of one failed attempt that is retried: the call, the progress line and the
  wait, for the call with index \<open>j\<close> counted from the world \<open>w\<close>, made when the loop
  variable is \<open>attempt + j\<close>.
\<close>

definition retry_events ::
  "('a, 'x, 'w) operation \<Rightarrow> int \<Rightarrow> int \<Rightarrow> nat \<Rightarrow> 'w \<Rightarrow> nat \<Rightarrow> event list" where
  "retry_events fn maxRetries initialDelay attempt w j =
     [Call,
      Log (delayMs (projl (nth_outcome fn w j)) initialDelay (attempt + j))
        (Suc (attempt + j)) (of_int maxRetries),
      Sleep (delayMs (projl (nth_outcome fn w j)) initialDelay (attempt + j))]"

subsection \<open>The backoff formula as the specification words it\<close>

text \<open>
  The specification computes the server's delay as \<^verbatim>\<open>(failure.retryAfter ?? 1) * 1000\<close>:
  the default 1 only when \<open>retryAfter\<close> is absent.
\<close>

definition spec_wait :: "int option \<Rightarrow> int \<Rightarrow> nat \<Rightarrow> int" where
  "spec_wait r initialDelay i =
     max ((case r of None \<Rightarrow> 1 | Some s \<Rightarrow> s) * 1000) (initialDelay * 2 ^ i)"

subsection \<open>Concrete operations and failures\<close>

text \<open>
  An operation that follows a script: the call with index \<open>n\<close> ends as the \<open>n\<close>-th
  entry of the list says, and every call after the list as \<open>rest\<close> says. Its world is the
  number of calls made so far.
\<close>

definition scripted :: "('x thrown + 'a) list \<Rightarrow> ('x thrown + 'a) \<Rightarrow> ('a, 'x, nat) operation" where
  "scripted outcomes rest n = (if n < length outcomes then outcomes ! n else rest, Suc n)"

text \<open>Failures as the vault service sends them.\<close>

definition too_many_requests :: "unit thrown" where
  "too_many_requests =
     Object \<lparr>statusCode = JNum 429, error = JStr ''Too Many Requests'', retryAfter = None\<rparr>"

definition retry_after :: "int \<Rightarrow> unit thrown" where
  "retry_after r = Object \<lparr>statusCode = JNum 429, error = JUndefined, retryAfter = Some r\<rparr>"

definition bad_request :: "unit thrown" where
  "bad_request = Object \<lparr>statusCode = JNum 400, error = JStr ''Bad Request'', retryAfter = None\<rparr>"

text \<open>
  Failures with one of the two marks of line 24 only, and one whose status is the string
  "429" and whose \<open>error\<close> differs from the mark in case: \<^verbatim>\<open>===\<close> accepts neither.
\<close>

definition marker_only :: "unit thrown" where
  "marker_only =
     Object \<lparr>statusCode = JUndefined, error = JStr ''Too Many Requests'', retryAfter = None\<rparr>"

definition status_only :: "unit thrown" where
  "status_only = Object \<lparr>statusCode = JNum 429, error = JUndefined, retryAfter = None\<rparr>"

definition status_as_string :: "unit thrown" where
  "status_as_string =
     Object \<lparr>statusCode = JStr ''429'', error = JStr ''too many requests'', retryAfter = None\<rparr>"

section \<open>Properties\<close>

subsection \<open>Unfolding the loop\<close>

lemma call_count_append: "call_count (xs @ ys) = call_count xs + call_count ys"
  by (induction xs rule: call_count.induct) simp_all

lemma sleeps_append: "sleeps (xs @ ys) = sleeps xs @ sleeps ys"
  by (induction xs rule: sleeps.induct) simp_all

lemma nth_outcome_0: "nth_outcome fn w 0 = fst (fn w)"
  by (simp add: nth_outcome_def)

lemma nth_outcome_Suc: "nth_outcome fn w (Suc i) = nth_outcome fn (snd (fn w)) i"
  by (simp add: nth_outcome_def)

lemma loop_exit:
  "\<not> int attempt \<le> maxRetries \<Longrightarrow>
   loop fn maxRetries initialDelay attempt lastError w tr =
     \<lparr>outcome = ThrownAfterLoop lastError, trace = tr, world = w\<rparr>"
  by (simp add: loop.simps)

lemma loop_returns:
  "int attempt \<le> maxRetries \<Longrightarrow> fn w = (Inr v, w') \<Longrightarrow>
   loop fn maxRetries initialDelay attempt lastError w tr =
     \<lparr>outcome = Returned v, trace = tr @ [Call], world = w'\<rparr>"
  by (simp add: loop.simps)

lemma loop_throws:
  "int attempt \<le> maxRetries \<Longrightarrow> fn w = (Inl err, w') \<Longrightarrow>
   \<not> (isRateLimitError err \<and> int attempt < maxRetries) \<Longrightarrow>
   loop fn maxRetries initialDelay attempt lastError w tr =
     \<lparr>outcome = ThrownInLoop err, trace = tr @ [Call], world = w'\<rparr>"
  by (subst loop.simps) auto

lemma loop_retries:
  "int attempt < maxRetries \<Longrightarrow> fn w = (Inl err, w') \<Longrightarrow> isRateLimitError err \<Longrightarrow>
   loop fn maxRetries initialDelay attempt lastError w tr =
     loop fn maxRetries initialDelay (Suc attempt) err w'
       (tr @ [Call, Log (delayMs err initialDelay attempt) (Suc attempt) (of_int maxRetries),
              Sleep (delayMs err initialDelay attempt)])"
  by (subst loop.simps) auto

lemma loop_shape:
  "int attempt \<le> maxRetries \<Longrightarrow>
   \<exists>k. int (attempt + k) \<le> maxRetries \<and>
       (\<forall>j<k. \<exists>e. nth_outcome fn w j = Inl e \<and> isRateLimitError e) \<and>
       (\<forall>e. nth_outcome fn w k = Inl e \<longrightarrow> isRateLimitError e \<longrightarrow> int (attempt + k) = maxRetries) \<and>
       outcome (loop fn maxRetries initialDelay attempt lastError w tr) =
         (case nth_outcome fn w k of Inr v \<Rightarrow> Returned v | Inl e \<Rightarrow> ThrownInLoop e) \<and>
       world (loop fn maxRetries initialDelay attempt lastError w tr) = world_after fn w (Suc k) \<and>
       trace (loop fn maxRetries initialDelay attempt lastError w tr) =
         tr @ concat (map (retry_events fn maxRetries initialDelay attempt w) [0..<k]) @ [Call]"
proof (induction fn maxRetries initialDelay attempt lastError w tr rule: loop.induct)
  case (1 fn maxRetries initialDelay attempt lastError w tr)
  obtain res w' where fw: "fn w = (res, w')" by (cases "fn w")
  show ?case
  proof (cases res)
    case (Inr v)
    with fw 1(2) show ?thesis
      by (intro exI[of _ 0]) (simp add: loop_returns nth_outcome_0)
  next
    case (Inl err)
    show ?thesis
    proof (cases "isRateLimitError err \<and> int attempt < maxRetries")
      case False
      with fw Inl 1(2) show ?thesis
        by (intro exI[of _ 0]) (auto simp add: loop_throws nth_outcome_0)
    next
      case True
      then have rl: "isRateLimitError err" and lt: "int attempt < maxRetries" by simp_all
      from lt have le': "int (attempt + 1) \<le> maxRetries" by simp
      let ?tr' = "tr @ [Call, Log (delayMs err initialDelay attempt) (attempt + 1) (of_int maxRetries),
              Sleep (delayMs err initialDelay attempt)]"
      from 1(1)[OF 1(2) fw[symmetric] Inl rl lt le']
      obtain k where k: "int (attempt + 1 + k) \<le> maxRetries"
        "\<forall>j<k. \<exists>e. nth_outcome fn w' j = Inl e \<and> isRateLimitError e"
        "\<forall>e. nth_outcome fn w' k = Inl e \<longrightarrow> isRateLimitError e \<longrightarrow> int (attempt + 1 + k) = maxRetries"
        "outcome (loop fn maxRetries initialDelay (attempt + 1) err w' ?tr') =
           (case nth_outcome fn w' k of Inr v \<Rightarrow> Returned v | Inl e \<Rightarrow> ThrownInLoop e)"
        "world (loop fn maxRetries initialDelay (attempt + 1) err w' ?tr') = world_after fn w' (Suc k)"
        "trace (loop fn maxRetries initialDelay (attempt + 1) err w' ?tr') =
           ?tr' @ concat (map (retry_events fn maxRetries initialDelay (attempt + 1) w') [0..<k]) @ [Call]"
        by blast
      have step: "loop fn maxRetries initialDelay attempt lastError w tr =
                  loop fn maxRetries initialDelay (attempt + 1) err w' ?tr'"
        using loop_retries[OF lt _ rl, of fn w w'] fw Inl by simp
      have shift: "\<And>j. nth_outcome fn w (Suc j) = nth_outcome fn w' j"
        using fw by (simp add: nth_outcome_Suc)
      have first: "nth_outcome fn w 0 = Inl err"
        using fw Inl by (simp add: nth_outcome_0)
      have ev: "map (retry_events fn maxRetries initialDelay attempt w) [0..<Suc k] =
            retry_events fn maxRetries initialDelay attempt w 0 #
            map (retry_events fn maxRetries initialDelay (attempt + 1) w') [0..<k]"
        by (simp add: upt_conv_Cons map_Suc_upt[symmetric] retry_events_def shift del: upt_Suc)
      show ?thesis
      proof (intro exI[of _ "Suc k"] conjI)
        show "int (attempt + Suc k) \<le> maxRetries" using k(1) by simp
        show "\<forall>j<Suc k. \<exists>e. nth_outcome fn w j = Inl e \<and> isRateLimitError e"
        proof (intro allI impI)
          fix j assume "j < Suc k"
          then show "\<exists>e. nth_outcome fn w j = Inl e \<and> isRateLimitError e"
            using k(2) first rl shift by (cases j) auto
        qed
        show "\<forall>e. nth_outcome fn w (Suc k) = Inl e \<longrightarrow> isRateLimitError e \<longrightarrow> int (attempt + Suc k) = maxRetries"
          using k(3) shift by simp
        show "outcome (loop fn maxRetries initialDelay attempt lastError w tr) =
          (case nth_outcome fn w (Suc k) of Inr v \<Rightarrow> Returned v | Inl e \<Rightarrow> ThrownInLoop e)"
          using k(4) step shift by simp
        show "world (loop fn maxRetries initialDelay attempt lastError w tr) = world_after fn w (Suc (Suc k))"
          using k(5) step fw by simp
        show "trace (loop fn maxRetries initialDelay attempt lastError w tr) =
          tr @ concat (map (retry_events fn maxRetries initialDelay attempt w) [0..<Suc k]) @ [Call]"
          unfolding ev using k(6) step first by (simp add: retry_events_def)
      qed
    qed
  qed
qed

subsection \<open>The shape of a run\<close>

lemma call_count_retry_events:
  "call_count (concat (map (retry_events fn m d a w) js)) = length js"
  by (induction js) (simp_all add: retry_events_def call_count_append)

lemma sleeps_retry_events:
  "sleeps (concat (map (retry_events fn m d a w) js)) =
     map (\<lambda>j. delayMs (projl (nth_outcome fn w j)) d (a + j)) js"
  by (induction js) (simp_all add: retry_events_def sleeps_append)

lemma run_shape:
  assumes nonneg: "0 \<le> maxRetries_or_default m"
  shows calls_ge_1: "1 \<le> calls (withRateLimit fn m d w)"
    and calls_le: "int (calls (withRateLimit fn m d w)) \<le> maxRetries_or_default m + 1"
    and delays_eq: "delays (withRateLimit fn m d w) =
          map (\<lambda>j. delayMs (projl (nth_outcome fn w j)) (initialDelay_or_default d) j)
            [0..<calls (withRateLimit fn m d w) - 1]"
    and retried: "\<And>j. j < calls (withRateLimit fn m d w) - 1 \<Longrightarrow>
          \<exists>e. nth_outcome fn w j = Inl e \<and> isRateLimitError e"
    and exhausted: "\<And>e. nth_outcome fn w (calls (withRateLimit fn m d w) - 1) = Inl e \<Longrightarrow>
          isRateLimitError e \<Longrightarrow> int (calls (withRateLimit fn m d w)) = maxRetries_or_default m + 1"
    and outcome_eq: "outcome (withRateLimit fn m d w) =
          (case nth_outcome fn w (calls (withRateLimit fn m d w) - 1) of
             Inr v \<Rightarrow> Returned v | Inl e \<Rightarrow> ThrownInLoop e)"
    and world_eq: "world (withRateLimit fn m d w) = world_after fn w (calls (withRateLimit fn m d w))"
    and trace_last: "\<exists>evs. trace (withRateLimit fn m d w) = evs @ [Call]"
proof -
  let ?R = "withRateLimit fn m d w"
  let ?mr = "maxRetries_or_default m"
  let ?d0 = "initialDelay_or_default d"
  from nonneg have "int 0 \<le> ?mr" by simp
  from loop_shape[OF this, of fn w ?d0 "Primitive JUndefined" "[]"]
  obtain k where k: "int k \<le> ?mr"
      "\<forall>j<k. \<exists>e. nth_outcome fn w j = Inl e \<and> isRateLimitError e"
      "\<forall>e. nth_outcome fn w k = Inl e \<longrightarrow> isRateLimitError e \<longrightarrow> int k = ?mr"
      "outcome ?R = (case nth_outcome fn w k of Inr v \<Rightarrow> Returned v | Inl e \<Rightarrow> ThrownInLoop e)"
      "world ?R = world_after fn w (Suc k)"
      "trace ?R = concat (map (retry_events fn ?mr ?d0 0 w) [0..<k]) @ [Call]"
    unfolding withRateLimit_def by auto
  have c: "calls ?R = Suc k"
    by (simp add: calls_def k(6) call_count_append call_count_retry_events)
  show "1 \<le> calls ?R" using c by simp
  show "int (calls ?R) \<le> ?mr + 1" using c k(1) by simp
  show "delays ?R = map (\<lambda>j. delayMs (projl (nth_outcome fn w j)) ?d0 j) [0..<calls ?R - 1]"
    by (simp add: delays_def k(6) sleeps_append sleeps_retry_events c)
  show "\<And>j. j < calls ?R - 1 \<Longrightarrow> \<exists>e. nth_outcome fn w j = Inl e \<and> isRateLimitError e"
    using k(2) c by simp
  show "\<And>e. nth_outcome fn w (calls ?R - 1) = Inl e \<Longrightarrow> isRateLimitError e \<Longrightarrow>
          int (calls ?R) = ?mr + 1"
    using k(3) c by simp
  show "outcome ?R = (case nth_outcome fn w (calls ?R - 1) of
             Inr v \<Rightarrow> Returned v | Inl e \<Rightarrow> ThrownInLoop e)"
    using k(4) c by simp
  show "world ?R = world_after fn w (calls ?R)" using k(5) c by simp
  show "\<exists>evs. trace ?R = evs @ [Call]" using k(6) by blast
qed

lemma run_negative:
  assumes "maxRetries_or_default m < 0"
  shows "withRateLimit fn m d w =
           \<lparr>outcome = ThrownAfterLoop (Primitive JUndefined), trace = [], world = w\<rparr>"
  using assms by (simp add: withRateLimit_def loop_exit)

lemma world_after_scripted: "world_after (scripted xs r) n k = n + k"
  by (induction k arbitrary: n) (simp_all add: scripted_def)

lemma nth_outcome_scripted:
  "nth_outcome (scripted xs r) n i = (if n + i < length xs then xs ! (n + i) else r)"
  by (simp add: nth_outcome_def world_after_scripted) (simp add: scripted_def)

lemmas run_eval =
  withRateLimit_def loop.simps scripted_def maxRetries_or_default_def
  initialDelay_or_default_def isRateLimitError_def delayMs_def retryAfterOr1_def
  calls_def delays_def nth_outcome_scripted
  too_many_requests_def retry_after_def bad_request_def

lemma length_delays:
  "length (delays (withRateLimit fn m d w)) = calls (withRateLimit fn m d w) - 1"
proof (cases "0 \<le> maxRetries_or_default m")
  case True
  then show ?thesis by (simp add: delays_eq)
next
  case False
  then show ?thesis by (simp add: run_negative calls_def delays_def)
qed

lemma calls_positive_nonneg:
  "i < calls (withRateLimit fn m d w) \<Longrightarrow> 0 \<le> maxRetries_or_default m"
  by (rule ccontr) (simp add: run_negative calls_def)

lemma delay_after_attempt:
  assumes made: "i < calls (withRateLimit fn m d w)"
    and fails: "nth_outcome fn w i = Inl e"
    and rl: "isRateLimitError e"
    and budget: "int i < maxRetries_or_default m"
  shows "i < length (delays (withRateLimit fn m d w))"
    and "delays (withRateLimit fn m d w) ! i = delayMs e (initialDelay_or_default d) i"
proof -
  let ?R = "withRateLimit fn m d w"
  have nonneg: "0 \<le> maxRetries_or_default m"
    using made by (rule calls_positive_nonneg)
  have "i \<noteq> calls ?R - 1"
  proof
    assume "i = calls ?R - 1"
    with exhausted[OF nonneg _ rl, where fn=fn and d=d and w=w] fails budget made show False by simp
  qed
  with made have lt: "i < calls ?R - 1" by simp
  then show "i < length (delays ?R)" by (simp add: length_delays)
  from lt show "delays ?R ! i = delayMs e (initialDelay_or_default d) i"
    by (simp add: delays_eq[OF nonneg] fails)
qed

subsection \<open>The loop for any \<open>maxRetries\<close>\<close>

text \<open>
  On an integer \<open>maxRetries\<close> the two loops are the same function, so every property of
  \<open>withRateLimit\<close> below is a property of \<open>withRateLimit_number\<close> there.
\<close>

lemma loop_number_of_int:
  "loop_number fn (of_int maxRetries) initialDelay attempt lastError w tr =
   loop fn maxRetries initialDelay attempt lastError w tr"
proof (induction fn maxRetries initialDelay attempt lastError w tr rule: loop.induct)
  case (1 fn maxRetries initialDelay attempt lastError w tr)
  have le: "real attempt \<le> real_of_int maxRetries \<longleftrightarrow> int attempt \<le> maxRetries"
    by linarith
  have lt: "real attempt < real_of_int maxRetries \<longleftrightarrow> int attempt < maxRetries"
    by linarith
  show ?case
  proof (cases "int attempt \<le> maxRetries")
    case False
    then show ?thesis
      by (subst loop_number.simps, subst loop.simps) (simp add: le)
  next
    case True
    obtain res w' where fw: "fn w = (res, w')" by (cases "fn w")
    show ?thesis
    proof (cases res)
      case (Inr v)
      with fw True show ?thesis
        by (subst loop_number.simps, subst loop.simps) (simp add: le)
    next
      case (Inl err)
      show ?thesis
      proof (cases "isRateLimitError err \<and> int attempt < maxRetries")
        case False
        with fw Inl True show ?thesis
          by (subst loop_number.simps, subst loop.simps) (auto simp add: le lt)
      next
        case yes: True
        then have rl: "isRateLimitError err" and less: "int attempt < maxRetries" by simp_all
        from "1"[OF True fw[symmetric] Inl rl less]
        have ih: "loop_number fn (of_int maxRetries) initialDelay (attempt + 1) err w'
            (tr @ [Call, Log (delayMs err initialDelay attempt) (attempt + 1) (of_int maxRetries),
                   Sleep (delayMs err initialDelay attempt)]) =
          loop fn maxRetries initialDelay (attempt + 1) err w'
            (tr @ [Call, Log (delayMs err initialDelay attempt) (attempt + 1) (of_int maxRetries),
                   Sleep (delayMs err initialDelay attempt)])" .
        show ?thesis
          using fw Inl rl less True ih
          by (subst loop_number.simps, subst loop.simps) (simp add: le lt)
      qed
    qed
  qed
qed

lemma withRateLimit_number_of_int:
  "withRateLimit_number fn (map_option of_int m) d w = withRateLimit fn m d w"
proof -
  have "maxRetries_number (map_option of_int m) = of_int (maxRetries_or_default m)"
    by (cases m) (simp_all add: maxRetries_number_def maxRetries_or_default_def)
  then show ?thesis
    by (simp add: withRateLimit_number_def withRateLimit_def loop_number_of_int)
qed

lemma loop_number_exit:
  "\<not> real attempt \<le> maxRetries \<Longrightarrow>
   loop_number fn maxRetries initialDelay attempt lastError w tr =
     \<lparr>outcome = ThrownAfterLoop lastError, trace = tr, world = w\<rparr>"
  by (simp add: loop_number.simps)

lemma loop_number_thrown:
  "settled (outcome (loop_number fn maxRetries initialDelay attempt lastError w tr)) = Inl e \<Longrightarrow>
   (\<not> real attempt \<le> maxRetries \<and> e = lastError) \<or>
   (\<exists>i. i + call_count tr <
          call_count (trace (loop_number fn maxRetries initialDelay attempt lastError w tr)) \<and>
        nth_outcome fn w i = Inl e)"
proof (induction fn maxRetries initialDelay attempt lastError w tr rule: loop_number.induct)
  case (1 fn maxRetries initialDelay attempt lastError w tr)
  show ?case
  proof (cases "real attempt \<le> maxRetries")
    case False
    with "1.prems" show ?thesis by (simp add: loop_number_exit)
  next
    case True
    obtain res w' where fw: "fn w = (res, w')" by (cases "fn w")
    show ?thesis
    proof (cases res)
      case (Inr v)
      with fw True "1.prems" show ?thesis by (simp add: loop_number.simps)
    next
      case (Inl err)
      have first: "nth_outcome fn w 0 = Inl err"
        using fw Inl by (simp add: nth_outcome_0)
      show ?thesis
      proof (cases "isRateLimitError err \<and> real attempt < maxRetries")
        case False
        have run: "loop_number fn maxRetries initialDelay attempt lastError w tr =
            \<lparr>outcome = ThrownInLoop err, trace = tr @ [Call], world = w'\<rparr>"
          using fw Inl True False by (subst loop_number.simps) auto
        with "1.prems" have "e = err" by simp
        with first run have "0 + call_count tr <
              call_count (trace (loop_number fn maxRetries initialDelay attempt lastError w tr)) \<and>
            nth_outcome fn w 0 = Inl e"
          by (simp add: call_count_append)
        then show ?thesis by blast
      next
        case yes: True
        then have rl: "isRateLimitError err" and less: "real attempt < maxRetries" by simp_all
        let ?tr' = "tr @ [Call, Log (delayMs err initialDelay attempt) (attempt + 1) maxRetries,
                          Sleep (delayMs err initialDelay attempt)]"
        let ?next = "loop_number fn maxRetries initialDelay (attempt + 1) err w' ?tr'"
        have step: "loop_number fn maxRetries initialDelay attempt lastError w tr = ?next"
          using fw Inl True rl less by (subst loop_number.simps) simp
        have cc: "call_count ?tr' = Suc (call_count tr)"
          by (simp add: call_count_append)
        have shift: "\<And>j. nth_outcome fn w (Suc j) = nth_outcome fn w' j"
          using fw by (simp add: nth_outcome_Suc)
        from "1.prems" step have "settled (outcome ?next) = Inl e" by simp
        from "1.IH"[OF True fw[symmetric] Inl rl less this]
        consider (exit) "\<not> real (attempt + 1) \<le> maxRetries" "e = err"
          | (later) i where "i + call_count ?tr' < call_count (trace ?next)"
              "nth_outcome fn w' i = Inl e"
          by blast
        then show ?thesis
        proof cases
          case exit
          then have "?next = \<lparr>outcome = ThrownAfterLoop err, trace = ?tr', world = w'\<rparr>"
            by (simp add: loop_number_exit)
          with step cc exit(2) first have "0 + call_count tr <
                call_count (trace (loop_number fn maxRetries initialDelay attempt lastError w tr)) \<and>
              nth_outcome fn w 0 = Inl e"
            by simp
          then show ?thesis by blast
        next
          case later
          with step cc shift have "Suc i + call_count tr <
                call_count (trace (loop_number fn maxRetries initialDelay attempt lastError w tr)) \<and>
              nth_outcome fn w (Suc i) = Inl e"
            by simp
          then show ?thesis by blast
        qed
      qed
    qed
  qed
qed

subsection \<open>Classification of failures\<close>

text \<open>
  Claim C1. A thrown object counts as a rate-limit failure exactly when its field
  \<open>statusCode\<close> is the number 429 or its field \<open>error\<close> is the string
  "Too Many Requests"; either mark alone is enough, and a thrown primitive never counts.
  Only such a failure is followed by a wait and another attempt: an attempt \<open>i\<close> that was
  made is followed by a wait exactly when it threw an object with one of the two marks and
  \<open>i\<close> is below \<open>maxRetries\<close>.
\<close>

theorem rate_limit_classification:
  "(isRateLimitError (Object f) \<longleftrightarrow>
      statusCode f = JNum 429 \<or> error f = JStr ''Too Many Requests'') \<and>
   \<not> isRateLimitError (Primitive p) \<and>
   (i < calls (withRateLimit fn m d w) \<longrightarrow>
      (i < length (delays (withRateLimit fn m d w)) \<longleftrightarrow>
         (\<exists>g. nth_outcome fn w i = Inl (Object g) \<and>
              (statusCode g = JNum 429 \<or> error g = JStr ''Too Many Requests'') \<and>
              int i < maxRetries_or_default m)))"
proof (intro conjI impI)
  show "isRateLimitError (Object f) \<longleftrightarrow>
      statusCode f = JNum 429 \<or> error f = JStr ''Too Many Requests''"
    by (simp add: isRateLimitError_def)
  show "\<not> isRateLimitError (Primitive p)"
    by (simp add: isRateLimitError_def)
next
  let ?R = "withRateLimit fn m d w"
  assume made: "i < calls ?R"
  then have nonneg: "0 \<le> maxRetries_or_default m" by (rule calls_positive_nonneg)
  show "i < length (delays ?R) \<longleftrightarrow>
         (\<exists>g. nth_outcome fn w i = Inl (Object g) \<and>
              (statusCode g = JNum 429 \<or> error g = JStr ''Too Many Requests'') \<and>
              int i < maxRetries_or_default m)"
  proof
    assume "i < length (delays ?R)"
    then have lt: "i < calls ?R - 1" by (simp add: length_delays)
    from retried[OF nonneg lt] obtain e where
      e: "nth_outcome fn w i = Inl e" "isRateLimitError e" by blast
    from e(2) obtain g where g: "e = Object g"
      "statusCode g = JNum 429 \<or> error g = JStr ''Too Many Requests''"
      by (cases e) (simp_all add: isRateLimitError_def)
    from lt calls_le[OF nonneg, where fn=fn and d=d and w=w]
    have "int i < maxRetries_or_default m" by linarith
    with e(1) g show "\<exists>g. nth_outcome fn w i = Inl (Object g) \<and>
              (statusCode g = JNum 429 \<or> error g = JStr ''Too Many Requests'') \<and>
              int i < maxRetries_or_default m"
      by blast
  next
    assume "\<exists>g. nth_outcome fn w i = Inl (Object g) \<and>
              (statusCode g = JNum 429 \<or> error g = JStr ''Too Many Requests'') \<and>
              int i < maxRetries_or_default m"
    then obtain g where g: "nth_outcome fn w i = Inl (Object g)"
      "isRateLimitError (Object g)" "int i < maxRetries_or_default m"
      by (auto simp add: isRateLimitError_def)
    from delay_after_attempt(1)[OF made g] show "i < length (delays ?R)" .
  qed
qed

theorem rate_limit_classification_witness:
  "isRateLimitError marker_only \<and>
   isRateLimitError status_only \<and>
   \<not> isRateLimitError bad_request \<and>
   \<not> isRateLimitError status_as_string \<and>
   \<not> isRateLimitError (Primitive (JStr ''Too Many Requests'') :: unit thrown) \<and>
   calls (withRateLimit (scripted [Inl marker_only, Inl status_only] (Inl bad_request)
            :: (string, unit, nat) operation) None None 0) = 3 \<and>
   delays (withRateLimit (scripted [Inl marker_only, Inl status_only] (Inl bad_request)
            :: (string, unit, nat) operation) None None 0) = [1000, 2000] \<and>
   outcome (withRateLimit (scripted [Inl marker_only, Inl status_only] (Inl bad_request)
            :: (string, unit, nat) operation) None None 0) = ThrownInLoop bad_request \<and>
   calls (withRateLimit (scripted [Inl status_as_string] (Inr ''ok'')
            :: (string, unit, nat) operation) None None 0) = 1"
  using rate_limit_classification[of
          "\<lparr>statusCode = JUndefined, error = JStr ''Too Many Requests'', retryAfter = None\<rparr>"
          "JStr ''Too Many Requests''" 0
          "scripted [Inl marker_only, Inl status_only] (Inl bad_request)
             :: (string, unit, nat) operation" None None 0]
        rate_limit_classification[of
          "\<lparr>statusCode = JNum 429, error = JUndefined, retryAfter = None\<rparr>"
          "JNum 429" 1
          "scripted [Inl marker_only, Inl status_only] (Inl bad_request)
             :: (string, unit, nat) operation" None None 0]
        rate_limit_classification[of
          "\<lparr>statusCode = JNum 400, error = JStr ''Bad Request'', retryAfter = None\<rparr>"
          JUndefined 2
          "scripted [Inl marker_only, Inl status_only] (Inl bad_request)
             :: (string, unit, nat) operation" None None 0]
  by (simp add: run_eval marker_only_def status_only_def status_as_string_def)

subsection \<open>The backoff delay\<close>

text \<open>
  The specification takes the default of one second only when \<open>retryAfter\<close> is absent.
  The code writes \<^verbatim>\<open>error?.retryAfter || 1\<close>, which also replaces a \<open>retryAfter\<close> of zero.
  With \<open>maxRetries = 1\<close>, \<open>initialDelay = 500\<close> and a 429 failure carrying
  \<open>retryAfter = 0\<close>, the wait after attempt 0 is 1000 ms, where the formula of the
  specification gives \<open>max (0 * 1000) (500 * 2 ^ 0) = 500\<close>.
\<close>

theorem backoff_delay_counterexample:
  "nth_outcome (scripted [] (Inl (retry_after 0)) :: (string, unit, nat) operation) 0 0 =
     Inl (retry_after 0) \<and>
   isRateLimitError (retry_after 0) \<and>
   get_retryAfter (retry_after 0) = Some 0 \<and>
   delays (withRateLimit (scripted [] (Inl (retry_after 0)) :: (string, unit, nat) operation)
             (Some 1) (Some 500) 0) = [1000] \<and>
   spec_wait (Some 0) 500 0 = 500 \<and>
   delays (withRateLimit (scripted [] (Inl (retry_after 0)) :: (string, unit, nat) operation)
             (Some 1) (Some 500) 0) ! 0 \<noteq>
     spec_wait (get_retryAfter (retry_after 0)) 500 0"
  by (simp add: run_eval spec_wait_def)

text \<open>
  Claim C2, amended. For a rate-limit failure on attempt \<open>i\<close> with retries left, carrying
  a \<open>retryAfter\<close> of \<open>r\<close> seconds or none, the wait before the next attempt is
  \<open>max (r' * 1000) (initialDelay * 2 ^ i)\<close> milliseconds, where \<open>r'\<close> is \<open>r\<close> when
  \<open>retryAfter\<close> is present and not zero, and 1 otherwise. With no \<open>retryAfter\<close> the wait
  is \<open>max 1000 (initialDelay * 2 ^ i)\<close>, also under the default \<open>initialDelay\<close> of 1000.
\<close>

theorem backoff_delay:
  assumes made: "i < calls (withRateLimit fn m d w)"
    and fails: "nth_outcome fn w i = Inl e"
    and rl: "isRateLimitError e"
    and budget: "int i < maxRetries_or_default m"
  shows "i < length (delays (withRateLimit fn m d w)) \<and>
         delays (withRateLimit fn m d w) ! i =
           max ((case get_retryAfter e of None \<Rightarrow> 1 | Some r \<Rightarrow> if r = 0 then 1 else r) * 1000)
               (initialDelay_or_default d * 2 ^ i) \<and>
         (get_retryAfter e = None \<longrightarrow>
            delays (withRateLimit fn m d w) ! i = max 1000 (initialDelay_or_default d * 2 ^ i)) \<and>
         (get_retryAfter e = None \<longrightarrow> d = None \<longrightarrow>
            delays (withRateLimit fn m d w) ! i = max 1000 (1000 * 2 ^ i))"
  using delay_after_attempt[OF made fails rl budget]
  by (auto simp add: delayMs_def retryAfterOr1_def initialDelay_or_default_def)

theorem backoff_delay_witness:
  "1 < calls (withRateLimit (scripted [] (Inl too_many_requests) :: (string, unit, nat) operation)
            (Some 3) None 0) \<and>
   delays (withRateLimit (scripted [] (Inl too_many_requests) :: (string, unit, nat) operation)
            (Some 3) None 0) ! 1 = 2000"
  using backoff_delay[of 1
          "scripted [] (Inl too_many_requests) :: (string, unit, nat) operation"
          "Some 3" None 0 too_many_requests]
  by (simp add: run_eval)

subsection \<open>The server's floor\<close>

text \<open>
  Claim C6. For a rate-limit failure carrying \<open>retryAfter = r\<close>, the computed delay is at
  least \<open>r * 1000\<close> milliseconds, and so is the wait that follows the attempt when
  retries are left. With status 429 and \<open>retryAfter = 5\<close>, attempt 0 waits at least
  5000 ms although \<open>initialDelay * 2 ^ 0\<close> is 1000.
\<close>

theorem retryAfter_floor:
  assumes made: "i < calls (withRateLimit fn m d w)"
    and fails: "nth_outcome fn w i = Inl e"
    and rl: "isRateLimitError e"
    and budget: "int i < maxRetries_or_default m"
    and r: "get_retryAfter e = Some r"
  shows "r * 1000 \<le> delayMs e (initialDelay_or_default d) i \<and>
         i < length (delays (withRateLimit fn m d w)) \<and>
         r * 1000 \<le> delays (withRateLimit fn m d w) ! i"
  using delay_after_attempt[OF made fails rl budget] r
  by (auto simp add: delayMs_def retryAfterOr1_def le_max_iff_disj)

theorem retryAfter_floor_witness:
  "0 < calls (withRateLimit (scripted [] (Inl (retry_after 5)) :: (string, unit, nat) operation)
            None None 0) \<and>
   get_statusCode (retry_after 5) = JNum 429 \<and>
   get_retryAfter (retry_after 5) = Some 5 \<and>
   initialDelay_or_default None * 2 ^ 0 < 5000 \<and>
   5000 \<le> delays (withRateLimit (scripted [] (Inl (retry_after 5)) :: (string, unit, nat) operation)
            None None 0) ! 0"
  using retryAfter_floor[of 0
          "scripted [] (Inl (retry_after 5)) :: (string, unit, nat) operation"
          None None 0 "retry_after 5" 5]
  by (simp add: run_eval)

subsection \<open>Exhaustion\<close>

text \<open>
  Claim C3. For a non-negative \<open>maxRetries\<close> and an operation that throws a rate-limit
  failure on every attempt, the operation is called exactly \<open>maxRetries + 1\<close> times and
  the failure of the last attempt is thrown. With \<open>maxRetries = 2\<close> these are 3 attempts.
\<close>

theorem exhaustion:
  assumes nonneg: "0 \<le> maxRetries_or_default m"
    and always: "\<forall>i \<le> nat (maxRetries_or_default m). \<exists>e. nth_outcome fn w i = Inl e \<and> isRateLimitError e"
  shows "calls (withRateLimit fn m d w) = nat (maxRetries_or_default m) + 1 \<and>
         length (delays (withRateLimit fn m d w)) = nat (maxRetries_or_default m) \<and>
         (\<exists>e. nth_outcome fn w (nat (maxRetries_or_default m)) = Inl e \<and>
              outcome (withRateLimit fn m d w) = ThrownInLoop e \<and>
              settled (outcome (withRateLimit fn m d w)) = Inl e)"
proof -
  let ?R = "withRateLimit fn m d w"
  let ?mr = "maxRetries_or_default m"
  have le: "calls ?R - 1 \<le> nat ?mr"
    using calls_le[OF nonneg, where fn=fn and d=d and w=w] by linarith
  with always obtain e where e: "nth_outcome fn w (calls ?R - 1) = Inl e" "isRateLimitError e"
    by blast
  from exhausted[OF nonneg e] have c: "calls ?R = nat ?mr + 1"
    using nonneg by linarith
  have "outcome ?R = ThrownInLoop e"
    using outcome_eq[OF nonneg, where fn=fn and d=d and w=w] e(1) by simp
  with e(1) c show ?thesis by (simp add: length_delays)
qed

theorem exhaustion_witness:
  "nth_outcome (scripted [] (Inl too_many_requests) :: (string, unit, nat) operation) 0 2 =
     Inl too_many_requests \<and>
   isRateLimitError too_many_requests \<and>
   calls (withRateLimit (scripted [] (Inl too_many_requests) :: (string, unit, nat) operation)
            (Some 2) None 0) = 3 \<and>
   outcome (withRateLimit (scripted [] (Inl too_many_requests) :: (string, unit, nat) operation)
            (Some 2) None 0) = ThrownInLoop too_many_requests"
  using exhaustion[of "Some 2"
          "scripted [] (Inl too_many_requests) :: (string, unit, nat) operation" 0 None]
  by (simp add: nth_outcome_scripted maxRetries_or_default_def isRateLimitError_def
        too_many_requests_def)

subsection \<open>Failures that are not retried\<close>

text \<open>
  Claim C4. When some attempt of a run throws a failure that is not a rate-limit failure
  (\<open>statusCode\<close> not 429 and \<open>error\<close> not "Too Many Requests"), that very failure is
  thrown by \<^verbatim>\<open>withRateLimit\<close>, that attempt is the last call, no wait follows it (the
  waits are those after the earlier attempts, and the last event is the call), whatever
  \<open>maxRetries\<close> is. When the first attempt already fails this way, there is exactly one
  attempt.
\<close>

theorem non_retryable_propagates:
  "(i < calls (withRateLimit fn m d w) \<longrightarrow>
    nth_outcome fn w i = Inl e \<longrightarrow>
    \<not> (get_statusCode e = JNum 429 \<or> get_error e = JStr ''Too Many Requests'') \<longrightarrow>
      outcome (withRateLimit fn m d w) = ThrownInLoop e \<and>
      calls (withRateLimit fn m d w) = i + 1 \<and>
      length (delays (withRateLimit fn m d w)) = i \<and>
      (\<exists>evs. trace (withRateLimit fn m d w) = evs @ [Call])) \<and>
   (0 \<le> maxRetries_or_default m \<longrightarrow>
    nth_outcome fn w 0 = Inl e \<longrightarrow>
    \<not> (get_statusCode e = JNum 429 \<or> get_error e = JStr ''Too Many Requests'') \<longrightarrow>
      outcome (withRateLimit fn m d w) = ThrownInLoop e \<and>
      calls (withRateLimit fn m d w) = 1 \<and>
      trace (withRateLimit fn m d w) = [Call])"
proof (intro conjI impI)
  let ?R = "withRateLimit fn m d w"
  assume made: "i < calls ?R" and fails: "nth_outcome fn w i = Inl e"
    and other: "\<not> (get_statusCode e = JNum 429 \<or> get_error e = JStr ''Too Many Requests'')"
  from made have nonneg: "0 \<le> maxRetries_or_default m" by (rule calls_positive_nonneg)
  from other have nrl: "\<not> isRateLimitError e" by (simp add: isRateLimitError_def)
  have "\<not> i < calls ?R - 1"
  proof
    assume "i < calls ?R - 1"
    from retried[OF nonneg this] fails nrl show False by simp
  qed
  with made have last: "calls ?R - 1 = i" by simp
  then show "calls ?R = i + 1" using made by simp
  show "outcome ?R = ThrownInLoop e"
    using outcome_eq[OF nonneg, where fn=fn and d=d and w=w] last fails by simp
  show "length (delays ?R) = i" using last by (simp add: length_delays)
  show "\<exists>evs. trace ?R = evs @ [Call]" using nonneg by (rule trace_last)
next
  assume nonneg: "0 \<le> maxRetries_or_default m" and fails: "nth_outcome fn w 0 = Inl e"
    and other: "\<not> (get_statusCode e = JNum 429 \<or> get_error e = JStr ''Too Many Requests'')"
  obtain w' where fw: "fn w = (Inl e, w')"
    using fails by (cases "fn w") (simp add: nth_outcome_0)
  from other have nrl: "\<not> (isRateLimitError e \<and> int 0 < maxRetries_or_default m)"
    by (simp add: isRateLimitError_def)
  from nonneg have le: "int 0 \<le> maxRetries_or_default m" by simp
  have run: "withRateLimit fn m d w = \<lparr>outcome = ThrownInLoop e, trace = [Call], world = w'\<rparr>"
    unfolding withRateLimit_def using loop_throws[where fn=fn and w=w, OF le fw nrl] by simp
  show "outcome (withRateLimit fn m d w) = ThrownInLoop e" by (simp add: run)
  show "calls (withRateLimit fn m d w) = 1" by (simp add: run calls_def)
  show "trace (withRateLimit fn m d w) = [Call]" by (simp add: run)
qed

theorem non_retryable_propagates_witness:
  "1 < calls (withRateLimit (scripted [Inl too_many_requests] (Inl bad_request)
            :: (string, unit, nat) operation) None None 0) \<and>
   outcome (withRateLimit (scripted [Inl too_many_requests] (Inl bad_request)
            :: (string, unit, nat) operation) None None 0) = ThrownInLoop bad_request \<and>
   calls (withRateLimit (scripted [Inl too_many_requests] (Inl bad_request)
            :: (string, unit, nat) operation) None None 0) = 2 \<and>
   calls (withRateLimit (scripted [] (Inl bad_request)
            :: (string, unit, nat) operation) (Some 7) None 0) = 1 \<and>
   outcome (withRateLimit (scripted [] (Inl bad_request)
            :: (string, unit, nat) operation) (Some 7) None 0) = ThrownInLoop bad_request"
  using non_retryable_propagates[of 1
          "scripted [Inl too_many_requests] (Inl bad_request) :: (string, unit, nat) operation"
          None None 0 bad_request]
        non_retryable_propagates[of 0
          "scripted [] (Inl bad_request) :: (string, unit, nat) operation"
          "Some 7" None 0 bad_request]
  by (simp add: run_eval)

subsection \<open>Success\<close>

text \<open>
  Claim C5. When the first call of the operation returns a value, \<^verbatim>\<open>withRateLimit\<close>
  returns that value after exactly one call and no wait. The loop body runs at all only
  for a \<open>maxRetries\<close> that is not negative, which is the domain the specification gives
  the parameter.
\<close>

theorem first_success:
  assumes nonneg: "0 \<le> maxRetries_or_default m"
    and succeeds: "fn w = (Inr v, w')"
  shows "outcome (withRateLimit fn m d w) = Returned v \<and>
         calls (withRateLimit fn m d w) = 1 \<and>
         delays (withRateLimit fn m d w) = [] \<and>
         trace (withRateLimit fn m d w) = [Call] \<and>
         world (withRateLimit fn m d w) = w'"
proof -
  from nonneg have le: "int 0 \<le> maxRetries_or_default m" by simp
  have "withRateLimit fn m d w = \<lparr>outcome = Returned v, trace = [Call], world = w'\<rparr>"
    unfolding withRateLimit_def using loop_returns[where fn=fn and w=w, OF le succeeds] by simp
  then show ?thesis by (simp add: calls_def delays_def)
qed

theorem first_success_witness:
  "outcome (withRateLimit (scripted [] (Inr ''ok'') :: (string, unit, nat) operation)
      None None 0) = Returned ''ok'' \<and>
   calls (withRateLimit (scripted [] (Inr ''ok'') :: (string, unit, nat) operation)
      None None 0) = 1 \<and>
   delays (withRateLimit (scripted [] (Inr ''ok'') :: (string, unit, nat) operation)
      None None 0) = []"
  using first_success[of None "scripted [] (Inr ''ok'') :: (string, unit, nat) operation"
          0 "''ok''" 1 None]
  by (simp add: scripted_def maxRetries_or_default_def)

text \<open>
  Claim C7. With \<open>maxRetries = 5\<close> and an operation that throws a failure with status
  429 on attempts 0 and 1 and returns on attempt 2, \<^verbatim>\<open>withRateLimit\<close> returns that value
  after 3 calls and exactly 2 waits.
\<close>

theorem two_failures_then_success:
  assumes five: "maxRetries_or_default m = 5"
    and f0: "nth_outcome fn w 0 = Inl e0" and s0: "get_statusCode e0 = JNum 429"
    and f1: "nth_outcome fn w 1 = Inl e1" and s1: "get_statusCode e1 = JNum 429"
    and ok: "nth_outcome fn w 2 = Inr v"
  shows "outcome (withRateLimit fn m d w) = Returned v \<and>
         calls (withRateLimit fn m d w) = 3 \<and>
         delays (withRateLimit fn m d w) =
           [delayMs e0 (initialDelay_or_default d) 0, delayMs e1 (initialDelay_or_default d) 1]"
proof -
  let ?R = "withRateLimit fn m d w"
  from five have nonneg: "0 \<le> maxRetries_or_default m" by simp
  have rl0: "isRateLimitError e0" and rl1: "isRateLimitError e1"
    using s0 s1 by (simp_all add: isRateLimitError_def)
  have n0: "calls ?R - 1 \<noteq> 0"
  proof
    assume z: "calls ?R - 1 = 0"
    from exhausted[OF nonneg _ rl0, where fn=fn and d=d and w=w] z f0 five
      calls_ge_1[OF nonneg, where fn=fn and d=d and w=w]
    show False by simp
  qed
  have n1: "calls ?R - 1 \<noteq> 1"
  proof
    assume z: "calls ?R - 1 = 1"
    from exhausted[OF nonneg _ rl1, where fn=fn and d=d and w=w] z f1 five
    show False by simp
  qed
  have n3: "\<not> 2 < calls ?R - 1"
  proof
    assume "2 < calls ?R - 1"
    from retried[OF nonneg this] ok show False by simp
  qed
  from n0 n1 n3 have c: "calls ?R - 1 = 2" by linarith
  then have c3: "calls ?R = 3" by simp
  have "outcome ?R = Returned v"
    using outcome_eq[OF nonneg, where fn=fn and d=d and w=w] c ok by simp
  moreover have "delays ?R =
      [delayMs e0 (initialDelay_or_default d) 0, delayMs e1 (initialDelay_or_default d) 1]"
    using delays_eq[OF nonneg, where fn=fn and d=d and w=w] c f0 f1
    by (simp add: upt_conv_Cons del: upt_Suc)
  ultimately show ?thesis using c3 by simp
qed

theorem two_failures_then_success_witness:
  "outcome (withRateLimit
      (scripted [Inl too_many_requests, Inl too_many_requests] (Inr ''ok'')
        :: (string, unit, nat) operation) (Some 5) None 0) = Returned ''ok'' \<and>
   delays (withRateLimit
      (scripted [Inl too_many_requests, Inl too_many_requests] (Inr ''ok'')
        :: (string, unit, nat) operation) (Some 5) None 0) = [1000, 2000]"
  using two_failures_then_success[of "Some 5"
      "scripted [Inl too_many_requests, Inl too_many_requests] (Inr ''ok'')
        :: (string, unit, nat) operation" 0 too_many_requests too_many_requests "''ok''" None]
  by (simp add: nth_outcome_scripted maxRetries_or_default_def initialDelay_or_default_def
        too_many_requests_def delayMs_def retryAfterOr1_def)

subsection \<open>What is thrown\<close>

text \<open>
  Claim C8. For a \<open>maxRetries\<close> that is not negative, whatever \<^verbatim>\<open>withRateLimit\<close> throws
  is the very value the last call of the operation threw, unchanged (so each of its fields
  is the field of that failure), thrown by \<^verbatim>\<open>throw error\<close> inside the loop: either a
  failure that is not a rate-limit failure, or the failure of attempt \<open>maxRetries\<close>.
\<close>

theorem thrown_value_is_last_failure:
  assumes nonneg: "0 \<le> maxRetries_or_default m"
    and fails: "settled (outcome (withRateLimit fn m d w)) = Inl e"
  shows "1 \<le> calls (withRateLimit fn m d w) \<and>
         nth_outcome fn w (calls (withRateLimit fn m d w) - 1) = Inl e \<and>
         outcome (withRateLimit fn m d w) = ThrownInLoop e \<and>
         (\<not> isRateLimitError e \<or>
          int (calls (withRateLimit fn m d w)) = maxRetries_or_default m + 1)"
proof -
  let ?R = "withRateLimit fn m d w"
  note oc = outcome_eq[OF nonneg, where fn=fn and d=d and w=w]
  from oc fails have last: "nth_outcome fn w (calls ?R - 1) = Inl e"
    by (cases "nth_outcome fn w (calls ?R - 1)") simp_all
  with oc have "outcome ?R = ThrownInLoop e" by simp
  moreover have "\<not> isRateLimitError e \<or> int (calls ?R) = maxRetries_or_default m + 1"
    using exhausted[OF nonneg last] by blast
  ultimately show ?thesis
    using last calls_ge_1[OF nonneg, where fn=fn and d=d and w=w] fails by simp
qed

theorem thrown_value_is_last_failure_witness:
  "settled (outcome (withRateLimit (scripted [Inl too_many_requests] (Inl (retry_after 7))
      :: (string, unit, nat) operation) (Some 1) None 0)) = Inl (retry_after 7) \<and>
   calls (withRateLimit (scripted [Inl too_many_requests] (Inl (retry_after 7))
      :: (string, unit, nat) operation) (Some 1) None 0) = 2 \<and>
   nth_outcome (scripted [Inl too_many_requests] (Inl (retry_after 7))
      :: (string, unit, nat) operation) 0 1 = Inl (retry_after 7)"
  using thrown_value_is_last_failure[of "Some 1"
      "scripted [Inl too_many_requests] (Inl (retry_after 7)) :: (string, unit, nat) operation"
      None 0 "retry_after 7"]
  by (simp add: run_eval)

subsection \<open>Bounded attempts\<close>

text \<open>
  Claim C9. For a \<open>maxRetries\<close> that is not negative and any operation,
  \<^verbatim>\<open>withRateLimit\<close> ends (the loop is a total function) after at least one and at most
  \<open>maxRetries + 1\<close> calls, and what it hands to its caller is what the last call did: in
  exactly one of three ways, the value returned, a failure that is not a rate-limit failure
  thrown, or a rate-limit failure thrown after \<open>maxRetries + 1\<close> calls.
\<close>

theorem bounded_attempts:
  assumes nonneg: "0 \<le> maxRetries_or_default m"
  shows "1 \<le> calls (withRateLimit fn m d w) \<and>
         int (calls (withRateLimit fn m d w)) \<le> maxRetries_or_default m + 1 \<and>
         settled (outcome (withRateLimit fn m d w)) =
           nth_outcome fn w (calls (withRateLimit fn m d w) - 1) \<and>
         ((\<exists>v. outcome (withRateLimit fn m d w) = Returned v) \<and>
            \<not> (\<exists>e. outcome (withRateLimit fn m d w) = ThrownInLoop e)
          \<or>
          (\<exists>e. outcome (withRateLimit fn m d w) = ThrownInLoop e \<and> \<not> isRateLimitError e) \<and>
            \<not> (\<exists>v. outcome (withRateLimit fn m d w) = Returned v)
          \<or>
          (\<exists>e. outcome (withRateLimit fn m d w) = ThrownInLoop e \<and> isRateLimitError e \<and>
               int (calls (withRateLimit fn m d w)) = maxRetries_or_default m + 1) \<and>
            \<not> (\<exists>v. outcome (withRateLimit fn m d w) = Returned v))"
proof -
  let ?R = "withRateLimit fn m d w"
  note oc = outcome_eq[OF nonneg, where fn=fn and d=d and w=w]
  have a: "1 \<le> calls ?R" using nonneg by (rule calls_ge_1)
  have b: "int (calls ?R) \<le> maxRetries_or_default m + 1" using nonneg by (rule calls_le)
  have c: "settled (outcome ?R) = nth_outcome fn w (calls ?R - 1)"
    using oc by (cases "nth_outcome fn w (calls ?R - 1)") simp_all
  have e: "(\<exists>v. outcome ?R = Returned v) \<and> \<not> (\<exists>e. outcome ?R = ThrownInLoop e)
          \<or>
          (\<exists>e. outcome ?R = ThrownInLoop e \<and> \<not> isRateLimitError e) \<and>
            \<not> (\<exists>v. outcome ?R = Returned v)
          \<or>
          (\<exists>e. outcome ?R = ThrownInLoop e \<and> isRateLimitError e \<and>
               int (calls ?R) = maxRetries_or_default m + 1) \<and>
            \<not> (\<exists>v. outcome ?R = Returned v)"
  proof (cases "nth_outcome fn w (calls ?R - 1)")
    case (Inr v)
    with oc show ?thesis by simp
  next
    case (Inl err)
    with oc have t: "outcome ?R = ThrownInLoop err" by simp
    show ?thesis
    proof (cases "isRateLimitError err")
      case True
      from exhausted[OF nonneg Inl True] t True show ?thesis by simp
    next
      case False
      with t show ?thesis by simp
    qed
  qed
  from a b c e show ?thesis by blast
qed

theorem bounded_attempts_witness:
  "calls (withRateLimit (scripted [Inl too_many_requests] (Inl bad_request)
      :: (string, unit, nat) operation) (Some 4) None 0) = 2 \<and>
   settled (outcome (withRateLimit (scripted [Inl too_many_requests] (Inl bad_request)
      :: (string, unit, nat) operation) (Some 4) None 0)) = Inl bad_request"
  using bounded_attempts[of "Some 4"
      "scripted [Inl too_many_requests] (Inl bad_request) :: (string, unit, nat) operation"
      None 0]
  by (simp add: run_eval)

subsection \<open>The throw after the loop\<close>

text \<open>
  As claim C10 words it, the \<^verbatim>\<open>throw lastError\<close> of line 40 is never reached when
  \<open>maxRetries\<close> is not negative. With \<open>maxRetries = 0.5\<close> and an operation that always
  throws a 429 failure it is reached: attempt 0 fails and \<open>0 < 0.5\<close>, so the loop waits
  1000 ms and goes on; then \<open>1 \<le> 0.5\<close> is false, the loop ends and line 40 throws the
  failure of attempt 0.
\<close>

theorem post_loop_throw_counterexample:
  "(0 :: real) \<le> maxRetries_number (Some (1 / 2)) \<and>
   outcome (withRateLimit_number
      (scripted [] (Inl too_many_requests) :: (string, unit, nat) operation)
      (Some (1 / 2)) None 0) = ThrownAfterLoop too_many_requests \<and>
   trace (withRateLimit_number
      (scripted [] (Inl too_many_requests) :: (string, unit, nat) operation)
      (Some (1 / 2)) None 0) = [Call, Log 1000 1 (1 / 2), Sleep 1000]"
  by (simp add: withRateLimit_number_def loop_number.simps maxRetries_number_def run_eval)

text \<open>
  Claim C10, amended. For a negative \<open>maxRetries\<close> the operation is never called and the
  \<^verbatim>\<open>throw lastError\<close> after the loop throws \<^verbatim>\<open>undefined\<close>, the value \<open>lastError\<close> was
  declared with. For a \<open>maxRetries\<close> that is an integer and not negative that statement
  is never reached. For every \<open>maxRetries\<close> that is not negative, integer or not, whatever
  is thrown was thrown by a call of the operation in this run.
\<close>

theorem post_loop_throw:
  "(maxRetries_number m < 0 \<longrightarrow>
      calls (withRateLimit_number fn m d w) = 0 \<and>
      trace (withRateLimit_number fn m d w) = [] \<and>
      world (withRateLimit_number fn m d w) = w \<and>
      outcome (withRateLimit_number fn m d w) = ThrownAfterLoop (Primitive JUndefined)) \<and>
   (0 \<le> maxRetries_number m \<longrightarrow> maxRetries_number m \<in> \<int> \<longrightarrow>
      (\<forall>e. outcome (withRateLimit_number fn m d w) \<noteq> ThrownAfterLoop e)) \<and>
   (0 \<le> maxRetries_number m \<longrightarrow>
      (\<forall>e. settled (outcome (withRateLimit_number fn m d w)) = Inl e \<longrightarrow>
           (\<exists>i < calls (withRateLimit_number fn m d w). nth_outcome fn w i = Inl e)))"
proof (intro conjI impI allI)
  assume neg: "maxRetries_number m < 0"
  then have run: "withRateLimit_number fn m d w =
      \<lparr>outcome = ThrownAfterLoop (Primitive JUndefined), trace = [], world = w\<rparr>"
    by (simp add: withRateLimit_number_def loop_number_exit)
  show "calls (withRateLimit_number fn m d w) = 0" by (simp add: run calls_def)
  show "trace (withRateLimit_number fn m d w) = []" by (simp add: run)
  show "world (withRateLimit_number fn m d w) = w" by (simp add: run)
  show "outcome (withRateLimit_number fn m d w) = ThrownAfterLoop (Primitive JUndefined)"
    by (simp add: run)
next
  fix e
  assume nonneg: "0 \<le> maxRetries_number m" and whole: "maxRetries_number m \<in> \<int>"
  from whole obtain k where k: "maxRetries_number m = of_int k" by (auto elim: Ints_cases)
  with nonneg have k0: "0 \<le> maxRetries_or_default (Some k)"
    by (simp add: maxRetries_or_default_def)
  have same: "withRateLimit_number fn m d w = withRateLimit fn (Some k) d w"
    using k by (simp add: withRateLimit_number_def withRateLimit_def loop_number_of_int
        maxRetries_or_default_def)
  show "outcome (withRateLimit_number fn m d w) \<noteq> ThrownAfterLoop e"
    unfolding same
    using outcome_eq[OF k0, where fn=fn and d=d and w=w]
    by (cases "nth_outcome fn w (calls (withRateLimit fn (Some k) d w) - 1)") simp_all
next
  fix e
  let ?R = "withRateLimit_number fn m d w"
  assume nonneg: "0 \<le> maxRetries_number m"
    and thrown: "settled (outcome ?R) = Inl e"
  from loop_number_thrown[OF thrown[unfolded withRateLimit_number_def]] nonneg
  obtain i where "i < call_count (trace ?R)" "nth_outcome fn w i = Inl e"
    by (auto simp add: withRateLimit_number_def)
  then show "\<exists>i < calls ?R. nth_outcome fn w i = Inl e"
    by (auto simp add: calls_def)
qed

theorem post_loop_throw_witness:
  "calls (withRateLimit_number (scripted [] (Inr ''ok'') :: (string, unit, nat) operation)
      (Some (- 1)) None 0) = 0 \<and>
   outcome (withRateLimit_number (scripted [] (Inr ''ok'') :: (string, unit, nat) operation)
      (Some (- 1)) None 0) = ThrownAfterLoop (Primitive JUndefined) \<and>
   outcome (withRateLimit_number
      (scripted [] (Inl too_many_requests) :: (string, unit, nat) operation)
      (Some 0) None 0) \<noteq> ThrownAfterLoop too_many_requests \<and>
   settled (outcome (withRateLimit_number
      (scripted [] (Inl too_many_requests) :: (string, unit, nat) operation)
      (Some (1 / 2)) None 0)) = Inl too_many_requests \<and>
   nth_outcome (scripted [] (Inl too_many_requests) :: (string, unit, nat) operation) 0 0 =
     Inl too_many_requests"
  using post_loop_throw[of "Some (- 1)"
      "scripted [] (Inr ''ok'') :: (string, unit, nat) operation" None 0]
    post_loop_throw[of "Some 0"
      "scripted [] (Inl too_many_requests) :: (string, unit, nat) operation" None 0]
    post_loop_throw[of "Some (1 / 2)"
      "scripted [] (Inl too_many_requests) :: (string, unit, nat) operation" None 0]
  by (simp add: withRateLimit_number_def loop_number.simps maxRetries_number_def run_eval)

end
